theory Spec2Isabelle
  imports Complex_Main
begin

section \<open>Python values, errors and string formatting\<close>

text \<open>
  The module \<^verbatim>\<open>qiskit/ignis/characterization/hamiltonian/schedule.py\<close> builds pulse
  schedules from objects of the pulse library. Exceptions are values of the type
  \<open>error\<close>; a function that may raise returns \<open>error + 'a\<close>, \<open>Inl\<close> being the raise.
\<close>

datatype error =
    CharacterizationError string
  | PulseError
  | TypeError
  | IndexError

definition bind_err :: "error + 'a \<Rightarrow> ('a \<Rightarrow> error + 'b) \<Rightarrow> error + 'b" where
  "bind_err m f = (case m of Inl e \<Rightarrow> Inl e | Inr x \<Rightarrow> f x)"

text \<open>A \<^verbatim>\<open>for\<close> loop that appends one result per element and stops at the first raise.\<close>

primrec mapM_err :: "('a \<Rightarrow> error + 'b) \<Rightarrow> 'a list \<Rightarrow> error + 'b list" where
  "mapM_err f [] = Inr []"
| "mapM_err f (x # xs) =
     bind_err (f x) (\<lambda>y. bind_err (mapM_err f xs) (\<lambda>ys. Inr (y # ys)))"

text \<open>
  The values a schedule's \<^verbatim>\<open>name\<close> attribute can hold: the library stores whatever the
  constructor was given (\<^verbatim>\<open>Optional[str]\<close> by its annotation, unchecked).
\<close>

datatype pyval = PyNone | PyInt int | PyStr string

fun string_of_nat :: "nat \<Rightarrow> string" where
  "string_of_nat n =
     (if n < 10 then [''0123456789'' ! n]
      else string_of_nat (n div 10) @ [''0123456789'' ! (n mod 10)])"

declare string_of_nat.simps [simp del]

definition string_of_int :: "int \<Rightarrow> string" where
  "string_of_int i =
     (if i < 0 then CHR ''-'' # string_of_nat (nat (- i)) else string_of_nat (nat i))"

text \<open>
  \<^verbatim>\<open>'%d' % v\<close>: an integer is printed in decimal; a string or \<^verbatim>\<open>None\<close> raises
  \<^verbatim>\<open>TypeError\<close> (``%d format: a number is required, not str'').
\<close>

fun format_d :: "pyval \<Rightarrow> error + string" where
  "format_d (PyInt i) = Inr (string_of_int i)"
| "format_d (PyStr s) = Inl TypeError"
| "format_d PyNone = Inl TypeError"

text \<open>\<^verbatim>\<open>xs[i]\<close> on a Python list: negative indices count from the end.\<close>

definition py_index :: "'a list \<Rightarrow> int \<Rightarrow> error + 'a" where
  "py_index xs i =
     (if 0 \<le> i \<and> i < int (length xs) then Inr (xs ! nat i)
      else if i < 0 \<and> - int (length xs) \<le> i then Inr (xs ! nat (int (length xs) + i))
      else Inl IndexError)"

section \<open>The pulse library's data\<close>

datatype channel =
    DriveChannel nat
  | ControlChannel nat
  | MeasureChannel nat
  | AcquireChannel nat
  | MemorySlot nat
  | RegisterSlot nat
  | SnapshotChannel

fun is_ControlChannel :: "channel \<Rightarrow> bool" where
  "is_ControlChannel (ControlChannel k) = True"
| "is_ControlChannel _ = False"

text \<open>
  Commands. \<open>GaussianSquare d amp sigma risefall\<close> stands for the sample pulse that
  \<^verbatim>\<open>pulse_lib.gaussian_square(duration=d, amp=amp, sigma=sigma, risefall=risefall)\<close>
  returns; \<open>SamplePulse nm d\<close> is a calibrated pulse of the backend's pulse library with
  \<open>d\<close> samples. Durations are sample counts.
\<close>

datatype command =
    GaussianSquare nat complex real int
  | SamplePulse string nat
  | Delay nat
  | FrameChange real
  | PersistentValue complex
  | Acquire nat
  | Snapshot string

fun command_duration :: "command \<Rightarrow> nat" where
  "command_duration (GaussianSquare d amp sigma risefall) = d"
| "command_duration (SamplePulse nm d) = d"
| "command_duration (Delay d) = d"
| "command_duration (FrameChange ph) = 0"
| "command_duration (PersistentValue v) = 0"
| "command_duration (Acquire d) = d"
| "command_duration (Snapshot l) = 0"

text \<open>An instruction is a command bound to its channels.\<close>

datatype instruction = Instruction (command: command) (channels: "channel list")

text \<open>\<^verbatim>\<open>isinstance(inst, PulseInstruction)\<close>: the command is a sample pulse.\<close>

fun is_PulseInstruction :: "instruction \<Rightarrow> bool" where
  "is_PulseInstruction (Instruction (GaussianSquare d amp sigma risefall) chs) = True"
| "is_PulseInstruction (Instruction (SamplePulse nm d) chs) = True"
| "is_PulseInstruction _ = False"

text \<open>
  A schedule is its name and its instructions, each with its start time. The library
  keeps a tree of children and compares, measures and filters schedules by the flattened
  instructions; the model keeps the flattened list, in order of insertion.
\<close>

datatype schedule = Schedule (name: pyval) (instructions: "(nat \<times> instruction) list")

text \<open>A command called on a channel (\<^verbatim>\<open>cmd(channel)\<close>), as a schedule component.\<close>

definition on_channel :: "command \<Rightarrow> channel \<Rightarrow> schedule" where
  "on_channel cmd ch = Schedule PyNone [(0, Instruction cmd [ch])]"

text \<open>Time slots: one per instruction and channel, (channel, begin, end).\<close>

definition timeslots :: "(nat \<times> instruction) list \<Rightarrow> (channel \<times> nat \<times> nat) list" where
  "timeslots tis =
     concat (map (\<lambda>(t, i). map (\<lambda>ch. (ch, t, t + command_duration (command i))) (channels i)) tis)"

primrec max_list :: "nat list \<Rightarrow> nat" where
  "max_list [] = 0"
| "max_list (x # xs) = max x (max_list xs)"

text \<open>\<^verbatim>\<open>Schedule.duration\<close>: the latest end of a time slot, 0 for the empty schedule.\<close>

definition duration :: "schedule \<Rightarrow> nat" where
  "duration s = max_list (map (\<lambda>(ch, b, e). e) (timeslots (instructions s)))"

definition shift_instructions :: "nat \<Rightarrow> (nat \<times> instruction) list \<Rightarrow> (nat \<times> instruction) list" where
  "shift_instructions t tis = map (\<lambda>(t0, i). (t0 + t, i)) tis"

definition overlaps :: "(channel \<times> nat \<times> nat) list \<Rightarrow> (channel \<times> nat \<times> nat) list \<Rightarrow> bool" where
  "overlaps ts1 ts2 =
     list_ex (\<lambda>(c1, b1, e1). list_ex (\<lambda>(c2, b2, e2). c1 = c2 \<and> b1 < e2 \<and> b2 < e1) ts2) ts1"

text \<open>
  \<^verbatim>\<open>Schedule.insert(start_time, schedule)\<close> is documented as ``Return a new schedule
  with \<^verbatim>\<open>schedule\<close> inserted within \<^verbatim>\<open>self\<close> at \<^verbatim>\<open>start_time\<close>'': the result is
  named as the receiver and holds the receiver's instructions and the inserted ones moved
  by \<open>start_time\<close>; the receiver itself is left as it was. The module relies on this
  where it builds \<^verbatim>\<open>meas_basis\<close> from \<^verbatim>\<open>xproj_sched.insert(proj_delay, measure)\<close> and
  where it rebinds \<^verbatim>\<open>sched = sched.insert(...)\<close> in \<^verbatim>\<open>cr_tomography_schedules\<close>.
  The call raises \<^verbatim>\<open>PulseError\<close> when time slots overlap on a channel.
\<close>

definition insert_sched :: "schedule \<Rightarrow> nat \<Rightarrow> schedule \<Rightarrow> error + schedule" where
  "insert_sched s start_time child =
     (let moved = shift_instructions start_time (instructions child)
      in if overlaps (timeslots (instructions s)) (timeslots moved) then Inl PulseError
         else Inr (Schedule (name s) (instructions s @ moved)))"

text \<open>\<^verbatim>\<open>Schedule.shift(time)\<close>: a new schedule, same name, every instruction moved.\<close>

definition shift_sched :: "schedule \<Rightarrow> nat \<Rightarrow> schedule" where
  "shift_sched s t = Schedule (name s) (shift_instructions t (instructions s))"

fun str_of :: "pyval \<Rightarrow> string" where
  "str_of PyNone = ''None''"
| "str_of (PyInt i) = string_of_int i"
| "str_of (PyStr s) = s"

text \<open>\<^verbatim>\<open>Schedule.filter(instruction_types=[PulseInstruction])\<close>.\<close>

definition filter_PulseInstruction :: "schedule \<Rightarrow> schedule" where
  "filter_PulseInstruction s =
     Schedule (PyStr (str_of (name s) @ ''-filtered''))
       (filter (\<lambda>(t, i). is_PulseInstruction i) (instructions s))"

text \<open>
  \<^verbatim>\<open>Schedule.channels\<close>: the channels that hold a time slot, each once, in the order
  in which they first occur.
\<close>

definition sched_channels :: "schedule \<Rightarrow> channel list" where
  "sched_channels s = rev (remdups (rev (map fst (timeslots (instructions s)))))"

text \<open>
  A command definition maps an operation name and a qubit tuple to a schedule that may
  take parameters (\<^verbatim>\<open>P0\<close>, \<^verbatim>\<open>P1\<close> of \<^verbatim>\<open>u2\<close>); \<^verbatim>\<open>CmdDef.get\<close> raises \<^verbatim>\<open>PulseError\<close>
  for a pair it does not hold.
\<close>

type_synonym cmd_def = "string \<Rightarrow> int list \<Rightarrow> ((string \<times> real) list \<Rightarrow> schedule) option"

definition cmd_def_get :: "cmd_def \<Rightarrow> string \<Rightarrow> int list \<Rightarrow> (string \<times> real) list \<Rightarrow> error + schedule" where
  "cmd_def_get cd nm qubits params =
     (case cd nm qubits of None \<Rightarrow> Inl PulseError | Some f \<Rightarrow> Inr (f params))"

text \<open>
  What the module reads of the backend: \<open>default_cmd_def\<close> is
  \<^verbatim>\<open>CmdDef.from_defaults(defaults.cmd_def, defaults.pulse_library)\<close>, \<open>buffer\<close> is
  \<^verbatim>\<open>backend.defaults().buffer\<close>, and \<open>dt\<close>, \<open>n_qubits\<close>, \<open>meas_map\<close> come from
  \<^verbatim>\<open>backend.configuration()\<close>. Floats are modelled by real numbers.
\<close>

record backend =
  default_cmd_def :: cmd_def
  buffer :: nat
  dt :: real
  n_qubits :: nat
  meas_map :: "int list list"

text \<open>\<^verbatim>\<open>if not cmd_def: cmd_def = pulse.CmdDef.from_defaults(...)\<close>\<close>

definition resolve_cmd_def :: "backend \<Rightarrow> cmd_def option \<Rightarrow> cmd_def" where
  "resolve_cmd_def b cmd_def = (case cmd_def of None \<Rightarrow> default_cmd_def b | Some cd \<Rightarrow> cd)"

text \<open>
  \<^verbatim>\<open>pulse.PulseChannelSpec.from_backend(backend).qubits[q].drive\<close>: the specification
  holds one qubit per index below \<open>n_qubits\<close>, qubit \<open>i\<close> driven by \<open>DriveChannel i\<close>.
\<close>

definition qubit_drive :: "backend \<Rightarrow> int \<Rightarrow> error + channel" where
  "qubit_drive b q = py_index (map DriveChannel [0..<n_qubits b]) q"

section \<open>Channel resolution\<close>

definition get_channels ::
  "int \<Rightarrow> int \<Rightarrow> backend \<Rightarrow> cmd_def option \<Rightarrow> error + (channel \<times> channel \<times> channel)" where
  "get_channels c_qubit t_qubit b cmd_def =
     (let cd = resolve_cmd_def b cmd_def in
      case cmd_def_get cd ''cx'' [c_qubit, t_qubit] [] of
        Inl PulseError \<Rightarrow>
          Inl (CharacterizationError
                (''Cross resonance is not defined for qubits '' @ string_of_int c_qubit
                   @ ''-'' @ string_of_int t_qubit @ ''.''))
      | Inl e \<Rightarrow> Inl e
      | Inr cx_ref \<Rightarrow>
          (let cx_ref = filter_PulseInstruction cx_ref in
           case find is_ControlChannel (sched_channels cx_ref) of
             None \<Rightarrow> Inl (CharacterizationError ''No valid control channel to drive cross resonance.'')
           | Some cr_drive \<Rightarrow>
               bind_err (qubit_drive b c_qubit) (\<lambda>c_drive.
               bind_err (qubit_drive b t_qubit) (\<lambda>t_drive.
               Inr (c_drive, t_drive, cr_drive)))))"

section \<open>Rabi schedule builders\<close>

text \<open>
  \<^verbatim>\<open>if cancellation_amp:\<close> holds for an amplitude that is given and not zero;
  \<^verbatim>\<open>None\<close>, \<^verbatim>\<open>0\<close>, \<^verbatim>\<open>0.0\<close> and \<^verbatim>\<open>0j\<close> take the \<^verbatim>\<open>else\<close> branch.
\<close>

definition truthy :: "complex option \<Rightarrow> bool" where
  "truthy cancellation_amp = (case cancellation_amp of None \<Rightarrow> False | Some a \<Rightarrow> a \<noteq> 0)"

text \<open>
  The cancellation command of a loop body: \<open>can_sched\<close> is \<^verbatim>\<open>can_sched\<close> of
  \<^verbatim>\<open>cr1_rabi_schedules\<close> and \<^verbatim>\<open>can_sched_p\<close> of \<^verbatim>\<open>cr2_rabi_schedules\<close>;
  \<open>can_sched_m\<close> is the one with \<^verbatim>\<open>amp=-cancellation_amp\<close>.
\<close>

definition can_sched :: "complex option \<Rightarrow> nat \<Rightarrow> real \<Rightarrow> int \<Rightarrow> command" where
  "can_sched cancellation_amp d sigma risefall =
     (if truthy cancellation_amp then GaussianSquare d (the cancellation_amp) sigma risefall
      else Delay d)"

definition can_sched_m :: "complex option \<Rightarrow> nat \<Rightarrow> real \<Rightarrow> int \<Rightarrow> command" where
  "can_sched_m cancellation_amp d sigma risefall =
     (if truthy cancellation_amp then GaussianSquare d (- the cancellation_amp) sigma risefall
      else Delay d)"

text \<open>
  The body of the loop of \<^verbatim>\<open>cr1_rabi_schedules\<close>. Both calls of \<^verbatim>\<open>sched.insert\<close>
  are statements: the schedule each returns is dropped, and \<^verbatim>\<open>sched\<close>, still the
  schedule built by \<^verbatim>\<open>pulse.Schedule(name='%d' % index)\<close>, is appended.
\<close>

definition cr1_rabi_schedule ::
  "channel \<Rightarrow> channel \<Rightarrow> complex \<Rightarrow> real \<Rightarrow> int \<Rightarrow> complex option \<Rightarrow> nat \<times> nat \<Rightarrow> error + schedule" where
  "cr1_rabi_schedule t_drive cr_drive cr_amp sigma risefall cancellation_amp ic =
     (case ic of (index, cr_sample) \<Rightarrow>
       (let sched = Schedule (PyStr (string_of_nat index)) [];
            cr_sched = GaussianSquare cr_sample cr_amp sigma risefall;
            can = can_sched cancellation_amp cr_sample sigma risefall
        in bind_err (insert_sched sched 0 (on_channel cr_sched cr_drive)) (\<lambda>_.
           bind_err (insert_sched sched 0 (on_channel can t_drive)) (\<lambda>_.
           Inr sched))))"

text \<open>
  \<^verbatim>\<open>np.array(cr_samples, dtype=np.float) * backend.configuration().dt * 1e-9\<close>,
  over the reals.
\<close>

definition cr_times :: "backend \<Rightarrow> nat list \<Rightarrow> real list" where
  "cr_times b cr_samples = map (\<lambda>s. real s * dt b * (1 / 1000000000)) cr_samples"

definition cr1_rabi_schedules ::
  "int \<Rightarrow> int \<Rightarrow> backend \<Rightarrow> nat list \<Rightarrow> complex \<Rightarrow> real \<Rightarrow> int \<Rightarrow> complex option \<Rightarrow> cmd_def option
     \<Rightarrow> error + (real list \<times> schedule list)" where
  "cr1_rabi_schedules c_qubit t_qubit b cr_samples cr_amp sigma risefall cancellation_amp cmd_def =
     (let cd = resolve_cmd_def b cmd_def in
      bind_err (get_channels c_qubit t_qubit b (Some cd)) (\<lambda>(c_drive, t_drive, cr_drive).
      bind_err (mapM_err (cr1_rabi_schedule t_drive cr_drive cr_amp sigma risefall cancellation_amp)
                  (enumerate 0 cr_samples)) (\<lambda>schedules.
      Inr (cr_times b cr_samples, schedules))))"

text \<open>
  The body of the loop of \<^verbatim>\<open>cr2_rabi_schedules\<close>; \<^verbatim>\<open>int(0.5 * cr_sample)\<close> is
  \<open>cr_sample div 2\<close>. The six calls of \<^verbatim>\<open>sched.insert\<close> are statements as well, and
  \<^verbatim>\<open>sched.duration\<close> is read from the schedule that \<^verbatim>\<open>sched\<close> names.
\<close>

definition cr2_rabi_schedule ::
  "channel \<Rightarrow> channel \<Rightarrow> schedule \<Rightarrow> nat \<Rightarrow> complex \<Rightarrow> real \<Rightarrow> int \<Rightarrow> complex option \<Rightarrow> nat \<times> nat
     \<Rightarrow> error + schedule" where
  "cr2_rabi_schedule t_drive cr_drive echo_pi buf cr_amp sigma risefall cancellation_amp ic =
     (case ic of (index, cr_sample) \<Rightarrow>
       (let sched = Schedule (PyStr (string_of_nat index)) [];
            half_cr_sample = cr_sample div 2;
            cr_sched_p = GaussianSquare half_cr_sample cr_amp sigma risefall;
            cr_sched_m = GaussianSquare half_cr_sample (- cr_amp) sigma risefall;
            can_p = can_sched cancellation_amp half_cr_sample sigma risefall;
            can_m = can_sched_m cancellation_amp half_cr_sample sigma risefall
        in bind_err (insert_sched sched 0 (on_channel cr_sched_p cr_drive)) (\<lambda>_.
           bind_err (insert_sched sched 0 (on_channel can_p t_drive)) (\<lambda>_.
           bind_err (insert_sched sched (duration sched + buf) echo_pi) (\<lambda>_.
           bind_err (insert_sched sched (duration sched + buf) (on_channel cr_sched_m cr_drive)) (\<lambda>_.
           bind_err (insert_sched sched (duration sched + buf) (on_channel can_m t_drive)) (\<lambda>_.
           bind_err (insert_sched sched (duration sched + buf) echo_pi) (\<lambda>_.
           Inr sched))))))))"

definition cr2_rabi_schedules ::
  "int \<Rightarrow> int \<Rightarrow> backend \<Rightarrow> nat list \<Rightarrow> complex \<Rightarrow> real \<Rightarrow> int \<Rightarrow> complex option \<Rightarrow> cmd_def option
     \<Rightarrow> error + (real list \<times> schedule list)" where
  "cr2_rabi_schedules c_qubit t_qubit b cr_samples cr_amp sigma risefall cancellation_amp cmd_def =
     (let cd = resolve_cmd_def b cmd_def in
      bind_err (get_channels c_qubit t_qubit b (Some cd)) (\<lambda>(c_drive, t_drive, cr_drive).
      bind_err (cmd_def_get cd ''x'' [c_qubit] []) (\<lambda>echo_pi.
      bind_err (mapM_err (cr2_rabi_schedule t_drive cr_drive echo_pi (buffer b) cr_amp sigma risefall
                            cancellation_amp)
                  (enumerate 0 cr_samples)) (\<lambda>schedules.
      Inr (cr_times b cr_samples, schedules)))))"

section \<open>Tomography schedules\<close>

text \<open>
  The body of the innermost loop of \<^verbatim>\<open>cr_tomography_schedules\<close>. Here every result of
  \<^verbatim>\<open>insert\<close> is bound to \<^verbatim>\<open>sched\<close> again. The name is
  \<^verbatim>\<open>'%d,%s,%d' % (rabi_sched.name, basis, c_state)\<close>.
\<close>

definition tomography_schedule ::
  "schedule \<Rightarrow> nat \<Rightarrow> schedule \<Rightarrow> string \<times> schedule \<Rightarrow> nat \<Rightarrow> error + schedule" where
  "tomography_schedule flip_ctrl buf rabi_sched bm c_state =
     (case bm of (basis, meas_sched) \<Rightarrow>
       bind_err (format_d (name rabi_sched)) (\<lambda>r.
       (let sched = Schedule (PyStr (r @ '','' @ basis @ '','' @ string_of_nat c_state)) [] in
        bind_err (if c_state \<noteq> 0 then insert_sched sched 0 flip_ctrl else Inr sched) (\<lambda>sched.
        bind_err (insert_sched sched (duration flip_ctrl + buf) rabi_sched) (\<lambda>sched.
        bind_err (insert_sched sched (duration sched + buf) meas_sched) (\<lambda>sched.
        Inr sched))))))"

text \<open>
  \<^verbatim>\<open>meas_basis\<close> is a dictionary built with the keys x, y, z in this order, and
  \<^verbatim>\<open>meas_basis.items()\<close> yields them in the order of insertion: an association list.
\<close>

definition cr_tomography_schedules ::
  "int \<Rightarrow> int \<Rightarrow> backend \<Rightarrow> schedule list \<Rightarrow> cmd_def option \<Rightarrow> error + schedule list" where
  "cr_tomography_schedules c_qubit t_qubit b rabi_schedules cmd_def =
     (let cd = resolve_cmd_def b cmd_def; buf = buffer b in
      bind_err (cmd_def_get cd ''x'' [c_qubit] []) (\<lambda>flip_ctrl.
      bind_err (py_index (meas_map b) 0) (\<lambda>meas_qubits.
      bind_err (cmd_def_get cd ''measure'' meas_qubits []) (\<lambda>measure.
      bind_err (cmd_def_get cd ''u2'' [t_qubit] [(''P0'', 0), (''P1'', pi)]) (\<lambda>xproj_sched.
      bind_err (cmd_def_get cd ''u2'' [t_qubit] [(''P0'', 0), (''P1'', 0.5 * pi)]) (\<lambda>yproj_sched.
      (let proj_delay = max (duration xproj_sched) (duration yproj_sched) + buf in
       bind_err (insert_sched xproj_sched proj_delay measure) (\<lambda>xmeas.
       bind_err (insert_sched yproj_sched proj_delay measure) (\<lambda>ymeas.
       (let meas_basis = [(''x'', xmeas), (''y'', ymeas), (''z'', shift_sched measure proj_delay)] in
        bind_err
          (mapM_err (\<lambda>rabi_sched.
             bind_err
               (mapM_err (\<lambda>bm. mapM_err (tomography_schedule flip_ctrl buf rabi_sched bm) [0, 1])
                  meas_basis)
               (\<lambda>per_basis. Inr (concat per_basis)))
             rabi_schedules)
          (\<lambda>per_rabi. Inr (concat per_rabi))))))))))))"

section \<open>A two-qubit backend\<close>

text \<open>
  A backend with two qubits, a sample interval of 1 and a buffer of 2 samples. Its
  \<^verbatim>\<open>cx\<close> on qubits (0, 1) drives the control channel \<open>u0\<close>; its \<^verbatim>\<open>x\<close> on qubit 0
  lasts 4 samples.
\<close>

definition ex_cx :: schedule where
  "ex_cx = Schedule (PyStr ''cx'')
     [(0, Instruction (FrameChange 1) [DriveChannel 0]),
      (0, Instruction (SamplePulse ''X90p_d1'' 4) [DriveChannel 1]),
      (4, Instruction (SamplePulse ''CR90p_u0'' 8) [ControlChannel 0]),
      (12, Instruction (SamplePulse ''Xp_d0'' 4) [DriveChannel 0])]"

definition ex_x :: schedule where
  "ex_x = Schedule (PyStr ''x'') [(0, Instruction (SamplePulse ''Xp_d0'' 4) [DriveChannel 0])]"

definition ex_u2 :: schedule where
  "ex_u2 = Schedule (PyStr ''u2'')
     [(0, Instruction (FrameChange 0) [DriveChannel 1]),
      (0, Instruction (SamplePulse ''Y90p_d1'' 4) [DriveChannel 1])]"

definition ex_measure :: schedule where
  "ex_measure = Schedule (PyStr ''measure'')
     [(0, Instruction (SamplePulse ''M_m0'' 6) [MeasureChannel 0]),
      (0, Instruction (Acquire 6) [AcquireChannel 0, AcquireChannel 1, MemorySlot 0, MemorySlot 1])]"

definition ex_cmd_def :: cmd_def where
  "ex_cmd_def nm qs =
     (if nm = ''cx'' \<and> qs = [0, 1] then Some (\<lambda>_. ex_cx)
      else if nm = ''x'' \<and> qs = [0] then Some (\<lambda>_. ex_x)
      else if nm = ''u2'' \<and> qs = [1] then Some (\<lambda>_. ex_u2)
      else if nm = ''measure'' \<and> qs = [0, 1] then Some (\<lambda>_. ex_measure)
      else None)"

definition ex_backend :: backend where
  "ex_backend =
     \<lparr>default_cmd_def = ex_cmd_def, buffer = 2, dt = 1, n_qubits = 2, meas_map = [[0, 1]]\<rparr>"

text \<open>
  A command definition whose \<^verbatim>\<open>cx\<close> on (0, 1) plays on drive channels only.
\<close>

definition ex_cx_no_control :: schedule where
  "ex_cx_no_control = Schedule (PyStr ''cx'')
     [(0, Instruction (SamplePulse ''X90p_d1'' 4) [DriveChannel 1]),
      (4, Instruction (FrameChange 1) [ControlChannel 0]),
      (4, Instruction (SamplePulse ''Xp_d0'' 4) [DriveChannel 0])]"

definition ex_cmd_def_no_control :: cmd_def where
  "ex_cmd_def_no_control nm qs =
     (if nm = ''cx'' \<and> qs = [0, 1] then Some (\<lambda>_. ex_cx_no_control) else ex_cmd_def nm qs)"

text \<open>A Rabi schedule of 10 samples on \<open>u0\<close> whose name is the integer 0.\<close>

definition ex_rabi :: schedule where
  "ex_rabi = Schedule (PyInt 0) [(0, Instruction (GaussianSquare 10 1 2 2) [ControlChannel 0])]"

text \<open>
  The six tomography schedules of \<open>ex_rabi\<close> on this backend: the flip lasts 4 samples,
  the buffer 2, so the Rabi pulse starts at 6 and ends at 16, and the measurement
  schedule starts at 18.
\<close>

definition ex_meas_x :: "(nat \<times> instruction) list" where
  "ex_meas_x =
     [(18, Instruction (FrameChange 0) [DriveChannel 1]),
      (18, Instruction (SamplePulse ''Y90p_d1'' 4) [DriveChannel 1]),
      (24, Instruction (SamplePulse ''M_m0'' 6) [MeasureChannel 0]),
      (24, Instruction (Acquire 6) [AcquireChannel 0, AcquireChannel 1, MemorySlot 0, MemorySlot 1])]"

definition ex_meas_z :: "(nat \<times> instruction) list" where
  "ex_meas_z =
     [(24, Instruction (SamplePulse ''M_m0'' 6) [MeasureChannel 0]),
      (24, Instruction (Acquire 6) [AcquireChannel 0, AcquireChannel 1, MemorySlot 0, MemorySlot 1])]"

definition ex_flip :: "nat \<times> instruction" where
  "ex_flip = (0, Instruction (SamplePulse ''Xp_d0'' 4) [DriveChannel 0])"

definition ex_cr :: "nat \<times> instruction" where
  "ex_cr = (6, Instruction (GaussianSquare 10 1 2 2) [ControlChannel 0])"

definition ex_tomography :: "schedule list" where
  "ex_tomography =
     [Schedule (PyStr ''0,x,0'') (ex_cr # ex_meas_x),
      Schedule (PyStr ''0,x,1'') (ex_flip # ex_cr # ex_meas_x),
      Schedule (PyStr ''0,y,0'') (ex_cr # ex_meas_x),
      Schedule (PyStr ''0,y,1'') (ex_flip # ex_cr # ex_meas_x),
      Schedule (PyStr ''0,z,0'') (ex_cr # ex_meas_z),
      Schedule (PyStr ''0,z,1'') (ex_flip # ex_cr # ex_meas_z)]"

section \<open>Properties\<close>

subsection \<open>Errors, loops and schedule insertion\<close>

lemma bind_err_simps [simp]:
  "bind_err (Inl e) f = Inl e" "bind_err (Inr x) f = f x"
  by (simp_all add: bind_err_def)

lemma timeslots_Nil [simp]: "timeslots [] = []"
  by (simp add: timeslots_def)

lemma overlaps_Nil [simp]: "overlaps [] ts = False"
  by (simp add: overlaps_def)

lemma insert_sched_empty:
  "insert_sched (Schedule n []) t child = Inr (Schedule n (shift_instructions t (instructions child)))"
  by (simp add: insert_sched_def)

lemma duration_empty [simp]: "duration (Schedule n []) = 0"
  by (simp add: duration_def)

lemma cr1_rabi_schedule_eq:
  "cr1_rabi_schedule t_drive cr_drive cr_amp sigma risefall cancellation_amp (index, cr_sample)
     = Inr (Schedule (PyStr (string_of_nat index)) [])"
  by (simp add: cr1_rabi_schedule_def insert_sched_empty Let_def)

lemma cr2_rabi_schedule_eq:
  "cr2_rabi_schedule t_drive cr_drive echo_pi buf cr_amp sigma risefall cancellation_amp (index, cr_sample)
     = Inr (Schedule (PyStr (string_of_nat index)) [])"
  by (simp add: cr2_rabi_schedule_def insert_sched_empty Let_def)

lemma mapM_err_all_Inr:
  "(\<And>x. x \<in> set xs \<Longrightarrow> f x = Inr (g x)) \<Longrightarrow> mapM_err f xs = Inr (map g xs)"
  by (induction xs) simp_all

lemma mapM_err_Inr_nth:
  "mapM_err f xs = Inr ys \<Longrightarrow> length ys = length xs \<and> (\<forall>i<length xs. f (xs ! i) = Inr (ys ! i))"
proof (induction xs arbitrary: ys)
  case Nil
  then show ?case by simp
next
  case (Cons x xs)
  from Cons.prems obtain y ys' where y: "f x = Inr y" and ys': "mapM_err f xs = Inr ys'" and eq: "ys = y # ys'"
    by (auto simp: bind_err_def split: sum.splits)
  from Cons.IH[OF ys'] have ih: "length ys' = length xs" "\<forall>i<length xs. f (xs ! i) = Inr (ys' ! i)"
    by simp_all
  show ?case
  proof (intro conjI allI impI)
    show "length ys = length (x # xs)" using ih eq by simp
  next
    fix i assume "i < length (x # xs)"
    then show "f ((x # xs) ! i) = Inr (ys ! i)"
      using y ih eq by (cases i) simp_all
  qed
qed

lemma nth_concat_blocks:
  "(\<And>ys. ys \<in> set yss \<Longrightarrow> length ys = n) \<Longrightarrow> i < length yss \<Longrightarrow> j < n \<Longrightarrow>
     concat yss ! (n * i + j) = yss ! i ! j"
proof (induction yss arbitrary: i)
  case Nil
  then show ?case by simp
next
  case (Cons ys yss)
  have len: "length ys = n" using Cons.prems(1) by simp
  show ?case
  proof (cases i)
    case 0
    then show ?thesis using len Cons.prems(3) by (simp add: nth_append)
  next
    case (Suc i')
    have "concat yss ! (n * i' + j) = yss ! i' ! j"
      using Cons.IH[of i'] Cons.prems Suc by simp
    then show ?thesis using Suc len by (simp add: nth_append add.assoc)
  qed
qed

lemma length_concat_blocks:
  "(\<And>ys. ys \<in> set yss \<Longrightarrow> length ys = n) \<Longrightarrow> length (concat yss) = n * length yss"
  by (induction yss) simp_all


lemma resolve_cmd_def_Some [simp]: "resolve_cmd_def b (Some cd) = cd"
  by (simp add: resolve_cmd_def_def)

lemma get_channels_resolved:
  "get_channels c t b (Some (resolve_cmd_def b cmd_def)) = get_channels c t b cmd_def"
  by (simp add: get_channels_def)

lemma get_channels_no_cx:
  "resolve_cmd_def b cmd_def ''cx'' [c, t] = None \<Longrightarrow>
   get_channels c t b cmd_def =
     Inl (CharacterizationError
           (''Cross resonance is not defined for qubits '' @ string_of_int c @ ''-''
              @ string_of_int t @ ''.''))"
  by (simp add: get_channels_def cmd_def_get_def)

lemma find_None_no_control:
  "\<forall>ch\<in>set chs. \<not> is_ControlChannel ch \<Longrightarrow> find is_ControlChannel chs = None"
  by (simp add: find_None_iff)

lemma find_control_channel:
  "\<exists>ch\<in>set chs. is_ControlChannel ch \<Longrightarrow>
   \<exists>k. find is_ControlChannel chs = Some (ControlChannel k) \<and> ControlChannel k \<in> set chs"
proof -
  assume "\<exists>ch\<in>set chs. is_ControlChannel ch"
  then obtain ch where f: "find is_ControlChannel chs = Some ch"
    by (cases "find is_ControlChannel chs") (auto simp: find_None_iff)
  then have "is_ControlChannel ch" and m: "ch \<in> set chs"
    by (auto simp: find_Some_iff)
  then obtain k where "ch = ControlChannel k" by (cases ch) simp_all
  with f m show ?thesis by blast
qed

lemma qubit_drive_in_range:
  "0 \<le> q \<Longrightarrow> q < int (n_qubits b) \<Longrightarrow> qubit_drive b q = Inr (DriveChannel (nat q))"
  by (simp add: qubit_drive_def py_index_def Let_def)

lemma cr1_rabi_schedules_eq:
  assumes "get_channels c t b cmd_def = Inr chs"
  shows "cr1_rabi_schedules c t b cr_samples cr_amp sigma risefall cancellation_amp cmd_def =
           Inr (cr_times b cr_samples,
                map (\<lambda>ic. Schedule (PyStr (string_of_nat (fst ic))) []) (enumerate 0 cr_samples))"
proof -
  obtain c_drive t_drive cr_drive where chs: "chs = (c_drive, t_drive, cr_drive)"
    by (cases chs) auto
  have "mapM_err (cr1_rabi_schedule t_drive cr_drive cr_amp sigma risefall cancellation_amp)
          (enumerate 0 cr_samples)
        = Inr (map (\<lambda>ic. Schedule (PyStr (string_of_nat (fst ic))) []) (enumerate 0 cr_samples))"
    by (rule mapM_err_all_Inr) (auto simp: cr1_rabi_schedule_eq)
  then show ?thesis
    using assms chs by (simp add: cr1_rabi_schedules_def get_channels_resolved)
qed

lemma cr2_rabi_schedules_eq:
  assumes "get_channels c t b cmd_def = Inr chs"
    and "cmd_def_get (resolve_cmd_def b cmd_def) ''x'' [c] [] = Inr echo_pi"
  shows "cr2_rabi_schedules c t b cr_samples cr_amp sigma risefall cancellation_amp cmd_def =
           Inr (cr_times b cr_samples,
                map (\<lambda>ic. Schedule (PyStr (string_of_nat (fst ic))) []) (enumerate 0 cr_samples))"
proof -
  obtain c_drive t_drive cr_drive where chs: "chs = (c_drive, t_drive, cr_drive)"
    by (cases chs) auto
  have "mapM_err (cr2_rabi_schedule t_drive cr_drive echo_pi (buffer b) cr_amp sigma risefall
                    cancellation_amp)
          (enumerate 0 cr_samples)
        = Inr (map (\<lambda>ic. Schedule (PyStr (string_of_nat (fst ic))) []) (enumerate 0 cr_samples))"
    by (rule mapM_err_all_Inr) (auto simp: cr2_rabi_schedule_eq)
  then show ?thesis
    using assms chs by (simp add: cr2_rabi_schedules_def get_channels_resolved)
qed

lemma ex_get_channels:
  "get_channels 0 1 ex_backend None = Inr (DriveChannel 0, DriveChannel 1, ControlChannel 0)"
  by (simp add: get_channels_def resolve_cmd_def_def ex_backend_def ex_cmd_def_def cmd_def_get_def
      ex_cx_def filter_PulseInstruction_def sched_channels_def timeslots_def qubit_drive_def
      py_index_def Let_def)

lemma ex_get_x:
  "cmd_def_get (resolve_cmd_def ex_backend None) ''x'' [0] [] = Inr ex_x"
  by (simp add: resolve_cmd_def_def ex_backend_def ex_cmd_def_def cmd_def_get_def)

lemma string_of_nat_0 [simp]: "string_of_nat 0 = ''0''"
  by (simp add: string_of_nat.simps)

lemma string_of_nat_1 [simp]: "string_of_nat (Suc 0) = ''1''"
  by (simp add: string_of_nat.simps)

lemma ex_cr1:
  "cr1_rabi_schedules 0 1 ex_backend [10] cr_amp sigma risefall cancellation_amp None
     = Inr ([1 / 100000000], [Schedule (PyStr ''0'') []])"
  by (subst cr1_rabi_schedules_eq [OF ex_get_channels])
     (simp add: cr_times_def enumerate_eq_zip ex_backend_def)

lemma ex_cr2:
  "cr2_rabi_schedules 0 1 ex_backend [10] cr_amp sigma risefall cancellation_amp None
     = Inr ([1 / 100000000], [Schedule (PyStr ''0'') []])"
  by (subst cr2_rabi_schedules_eq [OF ex_get_channels ex_get_x])
     (simp add: cr_times_def enumerate_eq_zip ex_backend_def)


lemma insert_sched_Inr:
  "insert_sched s t child = Inr s' \<Longrightarrow>
     s' = Schedule (name s) (instructions s @ shift_instructions t (instructions child))"
  by (simp add: insert_sched_def Let_def split: if_splits)

lemma tomography_schedule_Inr:
  assumes "tomography_schedule flip_ctrl buf rabi_sched (basis, meas_sched) c_state = Inr s"
  shows "\<exists>r rest. format_d (name rabi_sched) = Inr r
           \<and> name s = PyStr (r @ '','' @ basis @ '','' @ string_of_nat c_state)
           \<and> instructions s =
               (if c_state \<noteq> 0 then shift_instructions 0 (instructions flip_ctrl) else [])
               @ shift_instructions (duration flip_ctrl + buf) (instructions rabi_sched) @ rest"
proof -
  from assms obtain r where r: "format_d (name rabi_sched) = Inr r"
    by (cases "format_d (name rabi_sched)") (simp_all add: tomography_schedule_def)
  define s0 where "s0 = Schedule (PyStr (r @ '','' @ basis @ '','' @ string_of_nat c_state)) []"
  have "\<exists>s1 s2. (if c_state \<noteq> 0 then insert_sched s0 0 flip_ctrl else Inr s0) = Inr s1
           \<and> insert_sched s1 (duration flip_ctrl + buf) rabi_sched = Inr s2
           \<and> insert_sched s2 (duration s2 + buf) meas_sched = Inr s"
    using assms r unfolding s0_def
    by (auto simp: tomography_schedule_def Let_def bind_err_def split: sum.splits)
  then obtain s1 s2 where
    s1: "(if c_state \<noteq> 0 then insert_sched s0 0 flip_ctrl else Inr s0) = Inr s1" and
    s2: "insert_sched s1 (duration flip_ctrl + buf) rabi_sched = Inr s2" and
    s3: "insert_sched s2 (duration s2 + buf) meas_sched = Inr s"
    by blast
  have e1: "s1 = Schedule (name s0)
                   (if c_state \<noteq> 0 then shift_instructions 0 (instructions flip_ctrl) else [])"
    using s1 by (auto simp: s0_def dest: insert_sched_Inr split: if_splits)
  have e2: "s2 = Schedule (name s1)
                   (instructions s1 @ shift_instructions (duration flip_ctrl + buf) (instructions rabi_sched))"
    using s2 by (rule insert_sched_Inr)
  have e3: "s = Schedule (name s2)
                  (instructions s2 @ shift_instructions (duration s2 + buf) (instructions meas_sched))"
    using s3 by (rule insert_sched_Inr)
  have nm: "name s = PyStr (r @ '','' @ basis @ '','' @ string_of_nat c_state)"
    by (simp add: e3 e2 e1 s0_def)
  have ins: "instructions s =
               (if c_state \<noteq> 0 then shift_instructions 0 (instructions flip_ctrl) else [])
               @ shift_instructions (duration flip_ctrl + buf) (instructions rabi_sched)
               @ shift_instructions (duration s2 + buf) (instructions meas_sched)"
    by (simp add: e3 e2 e1)
  from r nm ins show ?thesis by blast
qed


lemma tomography_per_rabi:
  assumes "bind_err (mapM_err (\<lambda>bm. mapM_err (tomography_schedule flip_ctrl buf rabi bm) [0, 1])
                       [m0, m1, m2])
             (\<lambda>per_basis. Inr (concat per_basis)) = Inr ys"
  shows "length ys = 6"
    and "\<forall>j<3. \<forall>k<2. tomography_schedule flip_ctrl buf rabi ([m0, m1, m2] ! j) k
                         = Inr (ys ! (2 * j + k))"
proof -
  from assms obtain a0 a1 a2 a3 a4 a5 where
    ys: "ys = [a0, a1, a2, a3, a4, a5]" and
    a: "tomography_schedule flip_ctrl buf rabi m0 0 = Inr a0"
       "tomography_schedule flip_ctrl buf rabi m0 1 = Inr a1"
       "tomography_schedule flip_ctrl buf rabi m1 0 = Inr a2"
       "tomography_schedule flip_ctrl buf rabi m1 1 = Inr a3"
       "tomography_schedule flip_ctrl buf rabi m2 0 = Inr a4"
       "tomography_schedule flip_ctrl buf rabi m2 1 = Inr a5"
    by (auto simp: bind_err_def split: sum.splits)
  show "length ys = 6" by (simp add: ys)
  show "\<forall>j<3. \<forall>k<2. tomography_schedule flip_ctrl buf rabi ([m0, m1, m2] ! j) k
                         = Inr (ys ! (2 * j + k))"
  proof (intro allI impI)
    fix j k :: nat
    assume "j < 3" "k < 2"
    then have "j = 0 \<or> j = 1 \<or> j = 2" and "k = 0 \<or> k = 1" by auto
    then show "tomography_schedule flip_ctrl buf rabi ([m0, m1, m2] ! j) k = Inr (ys ! (2 * j + k))"
      using a by (auto simp: ys)
  qed
qed

lemma cr_tomography_schedules_Inr:
  assumes "cr_tomography_schedules c t b rabis cmd_def = Inr out"
  shows "\<exists>flip_ctrl meas_basis.
           cmd_def_get (resolve_cmd_def b cmd_def) ''x'' [c] [] = Inr flip_ctrl
         \<and> map fst meas_basis = [''x'', ''y'', ''z'']
         \<and> length out = 6 * length rabis
         \<and> (\<forall>i<length rabis. \<forall>j<3. \<forall>k<2.
               tomography_schedule flip_ctrl (buffer b) (rabis ! i) (meas_basis ! j) k
                 = Inr (out ! (6 * i + (2 * j + k))))"
proof -
  define cd where "cd = resolve_cmd_def b cmd_def"
  have "\<exists>flip_ctrl m0 m1 m2 per_rabi.
          cmd_def_get cd ''x'' [c] [] = Inr flip_ctrl
        \<and> map fst [m0, m1, m2] = [''x'', ''y'', ''z'']
        \<and> mapM_err (\<lambda>rabi_sched.
             bind_err
               (mapM_err (\<lambda>bm. mapM_err (tomography_schedule flip_ctrl (buffer b) rabi_sched bm) [0, 1])
                  [m0, m1, m2])
               (\<lambda>per_basis. Inr (concat per_basis)))
             rabis = Inr per_rabi
        \<and> out = concat per_rabi"
    using assms unfolding cd_def cr_tomography_schedules_def Let_def bind_err_def
    by (auto split: sum.splits)
  then obtain flip_ctrl m0 m1 m2 per_rabi where
    x: "cmd_def_get cd ''x'' [c] [] = Inr flip_ctrl" and
    keys: "map fst [m0, m1, m2] = [''x'', ''y'', ''z'']" and
    loop: "mapM_err (\<lambda>rabi_sched.
             bind_err
               (mapM_err (\<lambda>bm. mapM_err (tomography_schedule flip_ctrl (buffer b) rabi_sched bm) [0, 1])
                  [m0, m1, m2])
               (\<lambda>per_basis. Inr (concat per_basis)))
             rabis = Inr per_rabi" and
    out: "out = concat per_rabi"
    by (elim exE conjE) (rule that; assumption)
  from mapM_err_Inr_nth [OF loop] have
    len: "length per_rabi = length rabis" and
    each: "\<And>i. i < length rabis \<Longrightarrow>
             bind_err
               (mapM_err (\<lambda>bm. mapM_err (tomography_schedule flip_ctrl (buffer b) (rabis ! i) bm) [0, 1])
                  [m0, m1, m2])
               (\<lambda>per_basis. Inr (concat per_basis)) = Inr (per_rabi ! i)"
    by simp_all
  have six: "\<And>ys. ys \<in> set per_rabi \<Longrightarrow> length ys = 6"
  proof -
    fix ys assume "ys \<in> set per_rabi"
    then obtain i where "i < length per_rabi" "ys = per_rabi ! i"
      by (auto simp: in_set_conv_nth)
    with each [of i] len show "length ys = 6"
      by (simp add: tomography_per_rabi(1))
  qed
  have length_out: "length out = 6 * length rabis"
    using length_concat_blocks [of per_rabi 6] six len out by simp
  have nth_out: "\<forall>i<length rabis. \<forall>j<3. \<forall>k<2.
               tomography_schedule flip_ctrl (buffer b) (rabis ! i) ([m0, m1, m2] ! j) k
                 = Inr (out ! (6 * i + (2 * j + k)))"
  proof (intro allI impI)
    fix i j k :: nat
    assume i: "i < length rabis" and j: "j < 3" and k: "k < 2"
    have "2 * j + k < 6" using j k by simp
    then have "concat per_rabi ! (6 * i + (2 * j + k)) = per_rabi ! i ! (2 * j + k)"
      using nth_concat_blocks [of per_rabi 6 i "2 * j + k"] six i len by simp
    moreover have "tomography_schedule flip_ctrl (buffer b) (rabis ! i) ([m0, m1, m2] ! j) k
                     = Inr (per_rabi ! i ! (2 * j + k))"
      using tomography_per_rabi(2) [OF each [OF i]] j k by blast
    ultimately show "tomography_schedule flip_ctrl (buffer b) (rabis ! i) ([m0, m1, m2] ! j) k
                 = Inr (out ! (6 * i + (2 * j + k)))"
      by (simp add: out)
  qed
  from x keys length_out nth_out show ?thesis
    unfolding cd_def by (intro exI [of _ flip_ctrl] exI [of _ "[m0, m1, m2]"] conjI)
qed


lemmas ex_defs = resolve_cmd_def_def ex_backend_def ex_cmd_def_def cmd_def_get_def
  ex_cx_def ex_x_def ex_u2_def ex_measure_def ex_rabi_def

lemmas sched_defs = insert_sched_def shift_sched_def shift_instructions_def overlaps_def
  timeslots_def duration_def tomography_schedule_def string_of_int_def py_index_def Let_def

lemma ex_tomo_str:
  "cr_tomography_schedules 0 1 ex_backend [Schedule (PyStr ''0'') []] None = Inl TypeError"
  by (simp add: cr_tomography_schedules_def ex_defs sched_defs)

lemma ex_tomo_int:
  "cr_tomography_schedules 0 1 ex_backend [ex_rabi] None = Inr ex_tomography"
  by (simp add: cr_tomography_schedules_def ex_defs sched_defs ex_tomography_def ex_meas_x_def
      ex_meas_z_def ex_flip_def ex_cr_def)

lemma get_channels_cong:
  assumes r: "resolve_cmd_def b' cmd_def' ''cx'' [c, t] = resolve_cmd_def b cmd_def ''cx'' [c, t]"
    and n: "n_qubits b' = n_qubits b"
  shows "get_channels c t b' cmd_def' = get_channels c t b cmd_def"
proof -
  have q: "qubit_drive b' = qubit_drive b"
    using n by (simp add: qubit_drive_def fun_eq_iff)
  show ?thesis
    unfolding get_channels_def cmd_def_get_def Let_def q r by (rule refl)
qed

lemma truthy_zero [simp]: "truthy (Some 0) = False" "truthy None = False"
  by (simp_all add: truthy_def)

subsection \<open>Channel resolution\<close>

text \<open>
  C6. When the command definition in force holds no \<^verbatim>\<open>cx\<close> for the pair
  (\<open>c_qubit\<close>, \<open>t_qubit\<close>), channel resolution raises the characterization error whose
  message names the two qubits, and so does each Rabi builder, whatever its other
  arguments: the result is the error alone, no channel and no schedule.
\<close>

theorem no_cross_resonance_error:
  assumes "resolve_cmd_def b cmd_def ''cx'' [c_qubit, t_qubit] = None"
  shows "get_channels c_qubit t_qubit b cmd_def =
           Inl (CharacterizationError
                 (''Cross resonance is not defined for qubits '' @ string_of_int c_qubit @ ''-''
                    @ string_of_int t_qubit @ ''.''))
       \<and> cr1_rabi_schedules c_qubit t_qubit b cr_samples cr_amp sigma risefall cancellation_amp cmd_def =
           Inl (CharacterizationError
                 (''Cross resonance is not defined for qubits '' @ string_of_int c_qubit @ ''-''
                    @ string_of_int t_qubit @ ''.''))
       \<and> cr2_rabi_schedules c_qubit t_qubit b cr_samples cr_amp sigma risefall cancellation_amp cmd_def =
           Inl (CharacterizationError
                 (''Cross resonance is not defined for qubits '' @ string_of_int c_qubit @ ''-''
                    @ string_of_int t_qubit @ ''.''))"
  using get_channels_no_cx [OF assms]
  by (simp add: cr1_rabi_schedules_def cr2_rabi_schedules_def get_channels_resolved)

theorem no_cross_resonance_error_witness:
  "resolve_cmd_def ex_backend None ''cx'' [1, 0] = None
   \<and> get_channels 1 0 ex_backend None =
       Inl (CharacterizationError ''Cross resonance is not defined for qubits 1-0.'')
   \<and> cr1_rabi_schedules 1 0 ex_backend [10, 20] (2 / 10) 2 2 None None =
       Inl (CharacterizationError ''Cross resonance is not defined for qubits 1-0.'')
   \<and> cr2_rabi_schedules 1 0 ex_backend [10, 20] (2 / 10) 2 2 None None =
       Inl (CharacterizationError ''Cross resonance is not defined for qubits 1-0.'')"
proof -
  have h: "resolve_cmd_def ex_backend None ''cx'' [1, 0] = None"
    by (simp add: resolve_cmd_def_def ex_backend_def ex_cmd_def_def)
  have s: "string_of_int 1 = ''1''" "string_of_int 0 = ''0''"
    by (simp_all add: string_of_int_def)
  show ?thesis
    using h no_cross_resonance_error [OF h, of "[10, 20]" "2 / 10" 2 2 None]
    by (simp add: s)
qed

text \<open>
  C7. When the \<^verbatim>\<open>cx\<close> of the pair is defined and, once filtered to pulse instructions,
  has no control channel among its channels, channel resolution raises the
  characterization error ``No valid control channel to drive cross resonance.''; no
  channel is returned.
\<close>

theorem no_valid_control_channel_error:
  assumes "resolve_cmd_def b cmd_def ''cx'' [c_qubit, t_qubit] = Some cx"
    and "\<forall>ch\<in>set (sched_channels (filter_PulseInstruction (cx []))). \<not> is_ControlChannel ch"
  shows "get_channels c_qubit t_qubit b cmd_def =
           Inl (CharacterizationError ''No valid control channel to drive cross resonance.'')"
  using assms(1) find_None_no_control [OF assms(2)]
  by (simp add: get_channels_def cmd_def_get_def)

theorem no_valid_control_channel_error_witness:
  "resolve_cmd_def ex_backend (Some ex_cmd_def_no_control) ''cx'' [0, 1] = Some (\<lambda>_. ex_cx_no_control)
   \<and> sched_channels (filter_PulseInstruction ex_cx_no_control) = [DriveChannel 1, DriveChannel 0]
   \<and> get_channels 0 1 ex_backend (Some ex_cmd_def_no_control) =
       Inl (CharacterizationError ''No valid control channel to drive cross resonance.'')"
proof -
  have h1: "resolve_cmd_def ex_backend (Some ex_cmd_def_no_control) ''cx'' [0, 1]
              = Some (\<lambda>_. ex_cx_no_control)"
    by (simp add: ex_cmd_def_no_control_def)
  have h2: "\<forall>ch\<in>set (sched_channels (filter_PulseInstruction ((\<lambda>_. ex_cx_no_control) []))).
              \<not> is_ControlChannel ch"
    by (simp add: sched_channels_def filter_PulseInstruction_def ex_cx_no_control_def timeslots_def)
  have h3: "sched_channels (filter_PulseInstruction ex_cx_no_control) = [DriveChannel 1, DriveChannel 0]"
    by (simp add: sched_channels_def filter_PulseInstruction_def ex_cx_no_control_def timeslots_def)
  show ?thesis
    using h1 h3 no_valid_control_channel_error [OF h1 h2] by simp
qed

text \<open>
  C8. For two distinct qubits of the backend whose \<^verbatim>\<open>cx\<close> is defined and has a control
  channel among the channels of its pulse instructions, channel resolution returns the
  drive channel of the control qubit, the drive channel of the target qubit and a control
  channel of that \<^verbatim>\<open>cx\<close>, three pairwise distinct channels. The result is a function of
  the \<^verbatim>\<open>cx\<close> entry and of the number of qubits alone: any call that sees the same two
  returns the same result.
\<close>

theorem get_channels_distinct_deterministic:
  assumes "resolve_cmd_def b cmd_def ''cx'' [c_qubit, t_qubit] = Some cx"
    and "\<exists>ch\<in>set (sched_channels (filter_PulseInstruction (cx []))). is_ControlChannel ch"
    and "0 \<le> c_qubit" "c_qubit < int (n_qubits b)"
    and "0 \<le> t_qubit" "t_qubit < int (n_qubits b)"
    and "c_qubit \<noteq> t_qubit"
  shows "(\<exists>k. get_channels c_qubit t_qubit b cmd_def =
                Inr (DriveChannel (nat c_qubit), DriveChannel (nat t_qubit), ControlChannel k)
            \<and> ControlChannel k \<in> set (sched_channels (filter_PulseInstruction (cx [])))
            \<and> distinct [DriveChannel (nat c_qubit), DriveChannel (nat t_qubit), ControlChannel k])
       \<and> (\<forall>b' cmd_def'.
            resolve_cmd_def b' cmd_def' ''cx'' [c_qubit, t_qubit] = Some cx \<and> n_qubits b' = n_qubits b
              \<longrightarrow> get_channels c_qubit t_qubit b' cmd_def' = get_channels c_qubit t_qubit b cmd_def)"
proof (intro conjI allI impI)
  from find_control_channel [OF assms(2)] obtain k where
    k: "find is_ControlChannel (sched_channels (filter_PulseInstruction (cx []))) = Some (ControlChannel k)"
    and m: "ControlChannel k \<in> set (sched_channels (filter_PulseInstruction (cx [])))"
    by blast
  have "get_channels c_qubit t_qubit b cmd_def =
          Inr (DriveChannel (nat c_qubit), DriveChannel (nat t_qubit), ControlChannel k)"
    using assms(1) k qubit_drive_in_range [OF assms(3,4)] qubit_drive_in_range [OF assms(5,6)]
    by (simp add: get_channels_def cmd_def_get_def)
  moreover have "distinct [DriveChannel (nat c_qubit), DriveChannel (nat t_qubit), ControlChannel k]"
    using assms(3,5,7) by simp
  ultimately show "\<exists>k. get_channels c_qubit t_qubit b cmd_def =
                Inr (DriveChannel (nat c_qubit), DriveChannel (nat t_qubit), ControlChannel k)
            \<and> ControlChannel k \<in> set (sched_channels (filter_PulseInstruction (cx [])))
            \<and> distinct [DriveChannel (nat c_qubit), DriveChannel (nat t_qubit), ControlChannel k]"
    using m by blast
next
  fix b' cmd_def'
  assume "resolve_cmd_def b' cmd_def' ''cx'' [c_qubit, t_qubit] = Some cx \<and> n_qubits b' = n_qubits b"
  then show "get_channels c_qubit t_qubit b' cmd_def' = get_channels c_qubit t_qubit b cmd_def"
    using assms(1) by (intro get_channels_cong) simp_all
qed


theorem get_channels_distinct_deterministic_witness:
  "resolve_cmd_def ex_backend None ''cx'' [0, 1] = Some (\<lambda>_. ex_cx)
   \<and> (\<exists>ch\<in>set (sched_channels (filter_PulseInstruction ex_cx)). is_ControlChannel ch)
   \<and> (0::int) < int (n_qubits ex_backend) \<and> (1::int) < int (n_qubits ex_backend)
   \<and> get_channels 0 1 ex_backend None = Inr (DriveChannel 0, DriveChannel 1, ControlChannel 0)
   \<and> get_channels 0 1 ex_backend (Some ex_cmd_def) = get_channels 0 1 ex_backend None"
proof -
  have h1: "resolve_cmd_def ex_backend None ''cx'' [0, 1] = Some (\<lambda>_. ex_cx)"
    by (simp add: resolve_cmd_def_def ex_backend_def ex_cmd_def_def)
  have h2: "\<exists>ch\<in>set (sched_channels (filter_PulseInstruction ((\<lambda>_. ex_cx) []))). is_ControlChannel ch"
    by (simp add: sched_channels_def filter_PulseInstruction_def ex_cx_def timeslots_def)
  have n: "n_qubits ex_backend = 2"
    by (simp add: ex_backend_def)
  have h3: "(0::int) \<le> 0" "(0::int) < int (n_qubits ex_backend)"
    and h4: "(0::int) \<le> 1" "(1::int) < int (n_qubits ex_backend)"
    and h5: "(0::int) \<noteq> 1"
    by (simp_all add: n)
  have h6: "resolve_cmd_def ex_backend (Some ex_cmd_def) ''cx'' [0, 1] = Some (\<lambda>_. ex_cx)"
    by (simp add: ex_cmd_def_def)
  from get_channels_distinct_deterministic [OF h1 h2 h3 h4 h5]
  have "get_channels 0 1 ex_backend (Some ex_cmd_def) = get_channels 0 1 ex_backend None"
    and "\<exists>k. get_channels 0 1 ex_backend None = Inr (DriveChannel 0, DriveChannel 1, ControlChannel k)"
    using h6 by auto
  then show ?thesis
    using h1 h2 h3 h4 ex_get_channels by simp
qed

subsection \<open>The Rabi builders\<close>

text \<open>
  C1, at the durations [10], without and with a cancellation amplitude:
  \<^verbatim>\<open>cr1_rabi_schedules\<close> returns one schedule, named ``0'', that holds no instruction and
  lasts 0 samples, where 10 were requested. The schedules that the two calls of
  \<^verbatim>\<open>sched.insert\<close> return are dropped.
\<close>

theorem cr1_rabi_schedules_at_10:
  "cr1_rabi_schedules 0 1 ex_backend [10] (2 / 10) 2 2 None None
     = Inr ([1 / 100000000], [Schedule (PyStr ''0'') []])
   \<and> cr1_rabi_schedules 0 1 ex_backend [10] (2 / 10) 2 2 (Some (1 / 10)) None
     = Inr ([1 / 100000000], [Schedule (PyStr ''0'') []])
   \<and> duration (Schedule (PyStr ''0'') []) = 0"
  by (simp add: ex_cr1)

text \<open>
  C3, at the duration 10 on a backend whose buffer is 2 and whose flip lasts 4:
  \<^verbatim>\<open>cr2_rabi_schedules\<close> returns one schedule that holds no instruction and lasts 0
  samples, where the formula gives 22. Each offset \<^verbatim>\<open>sched.duration + buffer\<close> is read
  from the empty schedule, and the schedule every \<^verbatim>\<open>sched.insert\<close> returns is dropped.
\<close>

theorem cr2_rabi_schedules_at_10:
  "cr2_rabi_schedules 0 1 ex_backend [10] (2 / 10) 2 2 None None
     = Inr ([1 / 100000000], [Schedule (PyStr ''0'') []])
   \<and> duration (Schedule (PyStr ''0'') []) = 0
   \<and> 2 * (10 div 2) + 2 * buffer ex_backend + 2 * duration ex_x = 22"
  by (simp add: ex_cr2) (simp add: ex_backend_def ex_x_def duration_def timeslots_def)

text \<open>
  C9 as stated fails: with the sample interval 1 and the duration 10 the first component
  is \<open>[10 * 1 * 1e-9]\<close>, not \<open>[10 * 1]\<close>.
\<close>

theorem cr_times_counterexample:
  "cr1_rabi_schedules 0 1 ex_backend [10] (2 / 10) 2 2 None None
     = Inr ([1 / 100000000], [Schedule (PyStr ''0'') []])
   \<and> [1 / 100000000] \<noteq> map (\<lambda>s. real s * dt ex_backend) [10]"
  by (simp add: ex_cr1) (simp add: ex_backend_def)

text \<open>
  C9, amended. Whenever \<^verbatim>\<open>cr1_rabi_schedules\<close> or \<^verbatim>\<open>cr2_rabi_schedules\<close> returns, its
  first component has one entry per requested duration, and entry \<open>i\<close> is the duration
  \<open>i\<close> times the backend's sample interval \<open>dt\<close> times \<open>1e-9\<close> (product over the
  reals).
\<close>

theorem cr_times_scaled:
  "(cr1_rabi_schedules c_qubit t_qubit b cr_samples cr_amp sigma risefall cancellation_amp cmd_def
      = Inr (ts, schedules)
    \<longrightarrow> ts = map (\<lambda>s. real s * dt b * (1 / 1000000000)) cr_samples)
   \<and> (cr2_rabi_schedules c_qubit t_qubit b cr_samples cr_amp sigma risefall cancellation_amp cmd_def
      = Inr (ts, schedules)
    \<longrightarrow> ts = map (\<lambda>s. real s * dt b * (1 / 1000000000)) cr_samples)"
  by (auto simp: cr1_rabi_schedules_def cr2_rabi_schedules_def cr_times_def bind_err_def
      split: sum.splits)

theorem cr_times_scaled_witness:
  "cr1_rabi_schedules 0 1 ex_backend [10] (2 / 10) 2 2 None None
     = Inr ([1 / 100000000], [Schedule (PyStr ''0'') []])
   \<and> cr2_rabi_schedules 0 1 ex_backend [10] (2 / 10) 2 2 None None
     = Inr ([1 / 100000000], [Schedule (PyStr ''0'') []])
   \<and> [1 / 100000000] = map (\<lambda>s. real s * dt ex_backend * (1 / 1000000000)) [10]"
  using cr_times_scaled [of 0 1 ex_backend "[10]" "2 / 10" 2 2 None None "[1 / 100000000]"
      "[Schedule (PyStr ''0'') []]"]
  by (simp add: ex_cr1 ex_cr2)




subsection \<open>Tomography schedules\<close>

text \<open>
  C2, at one Rabi schedule named by the string ``0'' (the name \<^verbatim>\<open>cr1_rabi_schedules\<close>
  gives its first schedule): \<^verbatim>\<open>cr_tomography_schedules\<close> raises \<^verbatim>\<open>TypeError\<close> when it
  formats the name of the first output schedule with \<^verbatim>\<open>%d\<close>; no list of six schedules
  is returned.
\<close>

theorem cr_tomography_schedules_str_named:
  "cr_tomography_schedules 0 1 ex_backend [Schedule (PyStr ''0'') []] None = Inl TypeError"
  by (rule ex_tomo_str)

text \<open>
  C5, at the schedules that \<^verbatim>\<open>cr1_rabi_schedules\<close> and \<^verbatim>\<open>cr2_rabi_schedules\<close> return
  for the durations [10]: handed to \<^verbatim>\<open>cr_tomography_schedules\<close>, they make it raise
  \<^verbatim>\<open>TypeError\<close>, since their names are strings and the composite name is formatted
  with \<^verbatim>\<open>%d\<close>.
\<close>

theorem cr_tomography_schedules_of_rabi_builders:
  "bind_err (cr1_rabi_schedules 0 1 ex_backend [10] (2 / 10) 2 2 None None)
     (\<lambda>(cr_times, rabi_schedules). cr_tomography_schedules 0 1 ex_backend rabi_schedules None)
     = Inl TypeError
   \<and> bind_err (cr2_rabi_schedules 0 1 ex_backend [10] (2 / 10) 2 2 None None)
     (\<lambda>(cr_times, rabi_schedules). cr_tomography_schedules 0 1 ex_backend rabi_schedules None)
     = Inl TypeError"
  by (simp add: ex_cr1 ex_cr2 ex_tomo_str)

text \<open>
  C4 as stated fails for control state 0: on a backend whose flip lasts 4 samples and
  whose buffer is 2, the schedule for Rabi schedule 0, basis x and control state 0 holds
  the Rabi schedule moved by 6 samples, not by the buffer.
\<close>

theorem cr_tomography_offset_counterexample:
  "cr_tomography_schedules 0 1 ex_backend [ex_rabi] None = Inr ex_tomography
   \<and> instructions (ex_tomography ! (6 * 0 + 2 * 0 + 0))
       = shift_instructions 6 (instructions ex_rabi) @ ex_meas_x
   \<and> buffer ex_backend = 2
   \<and> shift_instructions 6 (instructions ex_rabi)
       \<noteq> shift_instructions (buffer ex_backend) (instructions ex_rabi)"
  by (simp add: ex_tomo_int)
     (simp add: ex_tomography_def ex_rabi_def ex_cr_def ex_backend_def shift_instructions_def)

text \<open>
  C4, amended. In every schedule that \<^verbatim>\<open>cr_tomography_schedules\<close> returns, the one at
  position \<open>6 * i + 2 * j + c_state\<close>, the instructions start with the control qubit's
  flip at offset 0 when the control state is 1 and with nothing when it is 0, followed in
  both cases by Rabi schedule \<open>i\<close> at offset flip duration + buffer, so never before the
  flip ends; the rest is the measurement.
\<close>

theorem cr_tomography_schedules_offsets:
  assumes "cr_tomography_schedules c_qubit t_qubit b rabi_schedules cmd_def = Inr out"
    and "i < length rabi_schedules" and "j < 3" and "c_state < 2"
  shows "\<exists>flip_ctrl rest.
           cmd_def_get (resolve_cmd_def b cmd_def) ''x'' [c_qubit] [] = Inr flip_ctrl
         \<and> instructions (out ! (6 * i + 2 * j + c_state)) =
             (if c_state = 1 then shift_instructions 0 (instructions flip_ctrl) else [])
             @ shift_instructions (duration flip_ctrl + buffer b) (instructions (rabi_schedules ! i))
             @ rest"
proof -
  from cr_tomography_schedules_Inr [OF assms(1)] obtain flip_ctrl meas_basis where
    x: "cmd_def_get (resolve_cmd_def b cmd_def) ''x'' [c_qubit] [] = Inr flip_ctrl" and
    nth: "\<forall>i<length rabi_schedules. \<forall>j<3. \<forall>k<2.
            tomography_schedule flip_ctrl (buffer b) (rabi_schedules ! i) (meas_basis ! j) k
              = Inr (out ! (6 * i + (2 * j + k)))"
    by blast
  obtain basis meas_sched where bm: "meas_basis ! j = (basis, meas_sched)"
    by (cases "meas_basis ! j") auto
  have "tomography_schedule flip_ctrl (buffer b) (rabi_schedules ! i) (meas_basis ! j) c_state
          = Inr (out ! (6 * i + (2 * j + c_state)))"
    using nth assms(2-4) by blast
  then have "tomography_schedule flip_ctrl (buffer b) (rabi_schedules ! i) (basis, meas_sched) c_state
          = Inr (out ! (6 * i + 2 * j + c_state))"
    by (simp add: bm add.assoc)
  from tomography_schedule_Inr [OF this] obtain rest where
    "instructions (out ! (6 * i + 2 * j + c_state)) =
       (if c_state \<noteq> 0 then shift_instructions 0 (instructions flip_ctrl) else [])
       @ shift_instructions (duration flip_ctrl + buffer b) (instructions (rabi_schedules ! i))
       @ rest"
    by blast
  moreover have "(c_state \<noteq> 0) = (c_state = 1)"
    using assms(4) by auto
  ultimately show ?thesis
    using x by auto
qed

theorem cr_tomography_schedules_offsets_witness:
  "cr_tomography_schedules 0 1 ex_backend [ex_rabi] None = Inr ex_tomography
   \<and> (0::nat) < length [ex_rabi] \<and> (0::nat) < 3 \<and> (1::nat) < 2
   \<and> (\<exists>flip_ctrl rest.
         cmd_def_get (resolve_cmd_def ex_backend None) ''x'' [0] [] = Inr flip_ctrl
       \<and> instructions (ex_tomography ! (6 * 0 + 2 * 0 + 1)) =
           shift_instructions 0 (instructions flip_ctrl)
           @ shift_instructions (duration flip_ctrl + buffer ex_backend) (instructions ex_rabi)
           @ rest)"
proof -
  have h: "(0::nat) < length [ex_rabi]" "(0::nat) < 3" "(1::nat) < 2"
    by simp_all
  from cr_tomography_schedules_offsets [OF ex_tomo_int h]
  show ?thesis
    using ex_tomo_int by simp
qed

end
